theory Spec2Isabelle
  imports Complex_Main "HOL-Library.Word"
begin

section \<open>Q15 fixed-point AXPY: the kernel of \<open>q15_axpy_challenge.c\<close>\<close>

text \<open>
  The C types of the source: \<open>int16_t\<close> (a Q15 value), \<open>int32_t\<close> (the intermediate,
  which is also the type \<open>int\<close> of the integer promotions on the target) and
  \<open>uint64_t\<close> (a cycle count).  Signed values are read with \<open>sint\<close>; \<open>+\<close> and
  \<open>*\<close> wrap around as the machine operations do.
\<close>

type_synonym int16_t = "16 word"
type_synonym int32_t = "32 word"
type_synonym uint64_t = "64 word"

text \<open>\<^verbatim>\<open>#define Q15_MIN (-32768)\<close> and \<^verbatim>\<open>#define Q15_MAX 32767\<close>: constants of type \<open>int\<close>.\<close>

definition Q15_MIN :: int32_t where
  "Q15_MIN = - 32768"

definition Q15_MAX :: int32_t where
  "Q15_MAX = 32767"

text \<open>
  \<open>saturate_q15\<close> (lines 16-21).  The comparisons are signed comparisons of \<open>int32_t\<close>;
  the conversions to \<open>int16_t\<close> keep the low 16 bits.
\<close>

definition saturate_q15 :: "int32_t \<Rightarrow> int16_t" where
  "saturate_q15 val =
     (if Q15_MAX <s val then ucast Q15_MAX
      else if val <s Q15_MIN then ucast Q15_MIN
      else ucast val)"

text \<open>
  The three statements of the loop body of \<open>q15_axpy_baseline\<close> (lines 27-29), one
  definition for each local variable:
  \<^verbatim>\<open>int32_t product = (int32_t)alpha * b[i];\<close>
  \<^verbatim>\<open>int32_t scaled = product >> 15;\<close>  (an arithmetic shift: the sign bit is replicated)
  \<^verbatim>\<open>int32_t sum = (int32_t)a[i] + scaled;\<close>
\<close>

definition product_of :: "int16_t \<Rightarrow> int16_t \<Rightarrow> int32_t" where
  "product_of alpha bi = scast alpha * scast bi"

definition scaled_of :: "int32_t \<Rightarrow> int32_t" where
  "scaled_of product = signed_drop_bit 15 product"

definition sum_of :: "int16_t \<Rightarrow> int32_t \<Rightarrow> int32_t" where
  "sum_of ai scaled = scast ai + scaled"

text \<open>
  An array is the list of the elements of the object the pointer points into, so an
  access at an index outside the list is an access outside the object: undefined
  behaviour in C, the error \<open>OutOfBounds\<close> here.
\<close>

datatype error = OutOfBounds

text \<open>
  The \<open>for\<close> loop of \<open>q15_axpy_baseline\<close> (lines 25-31), from the state in which the
  counter is \<open>i\<close> and the output array is \<open>y\<close>.  The counter is a \<open>size_t\<close> that only
  grows while it is below \<open>n\<close>, so it never wraps and is a natural number here.
\<close>

function q15_axpy_loop ::
  "int16_t list \<Rightarrow> int16_t list \<Rightarrow> int16_t list \<Rightarrow> nat \<Rightarrow> int16_t \<Rightarrow> nat
     \<Rightarrow> error + int16_t list" where
  "q15_axpy_loop a b y n alpha i =
     (if i < n then
        (if i < length a \<and> i < length b \<and> i < length y then
           (let product = product_of alpha (b ! i);
                scaled = scaled_of product;
                sum = sum_of (a ! i) scaled
            in q15_axpy_loop a b (y[i := saturate_q15 sum]) n alpha (Suc i))
         else Inl OutOfBounds)
      else Inr y)"
  by pat_completeness auto
termination
  by (relation "measure (\<lambda>(a, b, y, n, alpha, i). n - i)") auto

declare q15_axpy_loop.simps [simp del]

definition q15_axpy_baseline ::
  "int16_t list \<Rightarrow> int16_t list \<Rightarrow> int16_t list \<Rightarrow> nat \<Rightarrow> int16_t \<Rightarrow> error + int16_t list" where
  "q15_axpy_baseline a b y n alpha = q15_axpy_loop a b y n alpha 0"

text \<open>\<open>q15_axpy_vector\<close> (lines 35-38) calls the baseline on its own arguments.\<close>

definition q15_axpy_vector ::
  "int16_t list \<Rightarrow> int16_t list \<Rightarrow> int16_t list \<Rightarrow> nat \<Rightarrow> int16_t \<Rightarrow> error + int16_t list" where
  "q15_axpy_vector a b y n alpha = q15_axpy_baseline a b y n alpha"

text \<open>The value one iteration stores into \<open>y[i]\<close>, as a function of the three inputs it reads.\<close>

definition axpy_element :: "int16_t \<Rightarrow> int16_t \<Rightarrow> int16_t \<Rightarrow> int16_t" where
  "axpy_element alpha ai bi = saturate_q15 (sum_of ai (scaled_of (product_of alpha bi)))"

section \<open>The verification and benchmark harness\<close>

text \<open>
  What the harness does that can be observed, in the order it happens: the lines it
  prints (with the values they show, not their layout), the two kernel calls and the
  release of the buffers.  The speedup column prints
  \<^verbatim>\<open>(double)baseline_cycles / vector_cycles\<close>; the division is kept as the pair of its
  operands, the dividend and the divisor, both cycle counts.
\<close>

datatype quotient = Quotient (dividend: uint64_t) (divisor: uint64_t)

datatype event =
    Alloc_failed \<comment> \<open>line 80: "Memory allocation failed"\<close>
  | Header nat int16_t \<comment> \<open>lines 92-95: title, test size, alpha\<close>
  | Call_baseline \<comment> \<open>line 99\<close>
  | Call_vector \<comment> \<open>line 104\<close>
  | Mismatch nat int int \<comment> \<open>line 47: index, ref[i], test[i]\<close>
  | Results_header \<comment> \<open>lines 111-114\<close>
  | Baseline_row uint64_t \<comment> \<open>line 115\<close>
  | Vector_row uint64_t quotient \<comment> \<open>lines 116-118\<close>
  | Verification bool \<comment> \<open>line 119: PASSED (bit-exact) or FAILED\<close>
  | Free_buffers \<comment> \<open>line 121\<close>

text \<open>
  The loop of \<open>verify_identical\<close> (lines 43-50) from counter \<open>i\<close>, and the function
  itself (lines 41-52).  The result is what was printed and the returned \<open>int\<close>.
\<close>

function verify_identical_loop ::
  "int16_t list \<Rightarrow> int16_t list \<Rightarrow> nat \<Rightarrow> nat \<Rightarrow> error + (event list \<times> int32_t)" where
  "verify_identical_loop ref test n i =
     (if i < n then
        (if i < length ref \<and> i < length test then
           (if ref ! i \<noteq> test ! i
            then Inr ([Mismatch i (sint (ref ! i)) (sint (test ! i))], 0)
            else verify_identical_loop ref test n (Suc i))
         else Inl OutOfBounds)
      else Inr ([], 1))"
  by pat_completeness auto
termination
  by (relation "measure (\<lambda>(ref, test, n, i). n - i)") auto

declare verify_identical_loop.simps [simp del]

definition verify_identical ::
  "int16_t list \<Rightarrow> int16_t list \<Rightarrow> nat \<Rightarrow> error + (event list \<times> int32_t)" where
  "verify_identical ref test n = verify_identical_loop ref test n 0"

text \<open>
  What \<open>main\<close> takes from outside the program:
  \<^item> \<open>riscv64\<close>: whether the build has \<^verbatim>\<open>defined(__riscv) && (__riscv_xlen == 64)\<close>;
  \<^item> \<open>rdcycle\<close>: the value the \<open>k\<close>-th executed \<^verbatim>\<open>rdcycle\<close> instruction reads;
  \<^item> \<open>aligned_alloc\<close>: the result of the \<open>k\<close>-th call of \<open>aligned_alloc\<close>, \<open>None\<close> for
    the null pointer and otherwise the indeterminate initial contents of the block;
  \<^item> \<open>rand\<close>: the value of the \<open>k\<close>-th call of \<open>rand\<close> after \<^verbatim>\<open>srand(42)\<close>.
\<close>

record env =
  riscv64 :: bool
  rdcycle :: "nat \<Rightarrow> uint64_t"
  aligned_alloc :: "nat \<Rightarrow> (nat \<Rightarrow> int16_t) option"
  rand :: "nat \<Rightarrow> int32_t"

text \<open>\<open>rdcycle64\<close> (lines 55-64); \<open>k\<close> counts the calls made before this one.\<close>

definition rdcycle64 :: "env \<Rightarrow> nat \<Rightarrow> uint64_t" where
  "rdcycle64 e k = (if riscv64 e then rdcycle e k else 0)"

text \<open>The constants of \<open>main\<close> (lines 69-70).\<close>

definition test_size :: nat where
  "test_size = 4096"

definition alpha_main :: int16_t where
  "alpha_main = 16384"

text \<open>
  \<^verbatim>\<open>(int16_t)((rand() % 65536u) - 32768)\<close> (lines 88-89): the \<open>int\<close> is converted to
  \<open>unsigned\<close>, the remainder and the difference are unsigned 32-bit operations, and the
  conversion to \<open>int16_t\<close> keeps the low 16 bits.
\<close>

definition random_q15 :: "int32_t \<Rightarrow> int16_t" where
  "random_q15 r = ucast (r mod 65536 - 32768)"

text \<open>The initialisation loop of \<open>main\<close> (lines 86-90); iteration \<open>i\<close> makes the calls \<open>2i\<close> and \<open>2i+1\<close> of \<open>rand\<close>.\<close>

function init_loop ::
  "(nat \<Rightarrow> int32_t) \<Rightarrow> int16_t list \<Rightarrow> int16_t list \<Rightarrow> nat
     \<Rightarrow> error + (int16_t list \<times> int16_t list)" where
  "init_loop rnd a b i =
     (if i < test_size then
        (if i < length a \<and> i < length b then
           init_loop rnd (a[i := random_q15 (rnd (2 * i))])
             (b[i := random_q15 (rnd (2 * i + 1))]) (Suc i)
         else Inl OutOfBounds)
      else Inr (a, b))"
  by pat_completeness auto
termination
  by (relation "measure (\<lambda>(rnd, a, b, i). test_size - i)") auto

declare init_loop.simps [simp del]

text \<open>
  \<open>main\<close> after the allocation check, in two parts.  \<open>run_kernels\<close> is lines 84-105: it
  fills the inputs, runs and times both kernels, and yields the two output buffers and
  the two cycle counts.  \<open>verify_and_report\<close> is lines 107-122: the comparison, the
  results table and the exit code.
\<close>

definition run_kernels ::
  "env \<Rightarrow> error + (int16_t list \<times> int16_t list \<times> uint64_t \<times> uint64_t)" where
  "run_kernels e =
     (case init_loop (rand e) (map (the (aligned_alloc e 0)) [0..<test_size])
             (map (the (aligned_alloc e 1)) [0..<test_size]) 0 of
        Inl err \<Rightarrow> Inl err
      | Inr (a, b) \<Rightarrow>
          (let start = rdcycle64 e 0 in
           case q15_axpy_baseline a b (map (the (aligned_alloc e 2)) [0..<test_size])
                  test_size alpha_main of
             Inl err \<Rightarrow> Inl err
           | Inr baseline_out \<Rightarrow>
               (let baseline_cycles = rdcycle64 e 1 - start;
                    start = rdcycle64 e 2 in
                case q15_axpy_vector a b (map (the (aligned_alloc e 3)) [0..<test_size])
                       test_size alpha_main of
                  Inl err \<Rightarrow> Inl err
                | Inr vector_out \<Rightarrow>
                    (let vector_cycles = rdcycle64 e 3 - start
                     in Inr (baseline_out, vector_out, baseline_cycles, vector_cycles)))))"

definition verify_and_report ::
  "int16_t list \<Rightarrow> int16_t list \<Rightarrow> uint64_t \<Rightarrow> uint64_t \<Rightarrow> error + (event list \<times> int32_t)" where
  "verify_and_report baseline_out vector_out baseline_cycles vector_cycles =
     (case verify_identical baseline_out vector_out test_size of
        Inl err \<Rightarrow> Inl err
      | Inr (printed, verified) \<Rightarrow>
          Inr (printed @
               [Results_header,
                Baseline_row baseline_cycles,
                Vector_row vector_cycles (Quotient baseline_cycles vector_cycles),
                Verification (verified \<noteq> 0),
                Free_buffers],
               if verified \<noteq> 0 then 0 else 1))"

text \<open>\<open>main\<close> (lines 67-123): what it prints and does, and its return value.\<close>

definition main :: "env \<Rightarrow> error + (event list \<times> int32_t)" where
  "main e =
     (if aligned_alloc e 0 = None \<or> aligned_alloc e 1 = None
         \<or> aligned_alloc e 2 = None \<or> aligned_alloc e 3 = None
      then Inr ([Alloc_failed], 1)
      else
        (case run_kernels e of
           Inl err \<Rightarrow> Inl err
         | Inr (baseline_out, vector_out, baseline_cycles, vector_cycles) \<Rightarrow>
             (case verify_and_report baseline_out vector_out baseline_cycles vector_cycles of
                Inl err \<Rightarrow> Inl err
              | Inr (printed, code) \<Rightarrow>
                  Inr ([Header test_size alpha_main, Call_baseline, Call_vector] @ printed,
                       code))))"

text \<open>The floating-point divisions a run performs, in order, each as its two operands.\<close>

fun divisions :: "event list \<Rightarrow> quotient list" where
  "divisions [] = []"
| "divisions (Vector_row c q # es) = q # divisions es"
| "divisions (ev # es) = divisions es"

text \<open>A platform with no cycle counter on which every allocation succeeds.\<close>

definition no_counter_env :: env where
  "no_counter_env =
     \<lparr>riscv64 = False, rdcycle = (\<lambda>k. 0), aligned_alloc = (\<lambda>k. Some (\<lambda>i. 0)),
      rand = (\<lambda>k. 0)\<rparr>"

text \<open>A platform on which the third allocation returns the null pointer.\<close>

definition failed_alloc_env :: env where
  "failed_alloc_env =
     \<lparr>riscv64 = True, rdcycle = (\<lambda>k. 100 * of_nat k),
      aligned_alloc = (\<lambda>k. if k = 2 then None else Some (\<lambda>i. 0)), rand = (\<lambda>k. of_nat k)\<rparr>"

text \<open>A RISC-V platform whose counter advances and on which every allocation succeeds.\<close>

definition riscv_env :: env where
  "riscv_env =
     \<lparr>riscv64 = True, rdcycle = (\<lambda>k. 1000 * of_nat k + 7),
      aligned_alloc = (\<lambda>k. Some (\<lambda>i. of_nat (k + i))), rand = (\<lambda>k. of_nat (12345 * k + 1))\<rparr>"


section \<open>Saturation\<close>

lemma sint_Q15_MAX: "sint Q15_MAX = 32767"
  by (simp add: Q15_MAX_def)

lemma sint_Q15_MIN: "sint Q15_MIN = - 32768"
  by (simp add: Q15_MIN_def)

lemma sint_saturate_q15:
  "sint (saturate_q15 v) = max (- 32768) (min 32767 (sint v))"
proof -
  consider (hi) "32767 < sint v" | (lo) "sint v < - 32768"
    | (mid) "- 32768 \<le> sint v" "sint v \<le> 32767"
    by linarith
  then show ?thesis
  proof cases
    case hi
    then show ?thesis
      by (simp add: saturate_q15_def word_sless_alt sint_Q15_MAX Q15_MAX_def)
  next
    case lo
    then show ?thesis
      by (simp add: saturate_q15_def word_sless_alt sint_Q15_MAX sint_Q15_MIN Q15_MIN_def)
  next
    case mid
    have "sint (ucast v :: int16_t) = signed_take_bit 15 (sint v)"
      by (simp add: sint_uint unsigned_ucast_eq signed_take_bit_take_bit)
    also have "\<dots> = sint v"
      using mid by (simp add: signed_take_bit_int_eq_self)
    finally show ?thesis
      using mid by (simp add: saturate_q15_def word_sless_alt sint_Q15_MAX sint_Q15_MIN)
  qed
qed

text \<open>
  C2.  For every 32-bit signed value: above 32767 the result of \<open>saturate_q15\<close> is 32767,
  below -32768 it is -32768, and a value in [-32768, 32767] is returned unchanged.  The
  function has no error branch: it is a total function from \<open>int32_t\<close> to \<open>int16_t\<close>, and
  its result is always one of these three.
\<close>

theorem saturate_q15_boundary:
  "(32767 < sint v \<longrightarrow> sint (saturate_q15 v) = 32767) \<and>
   (sint v < - 32768 \<longrightarrow> sint (saturate_q15 v) = - 32768) \<and>
   (- 32768 \<le> sint v \<and> sint v \<le> 32767 \<longrightarrow> sint (saturate_q15 v) = sint v)"
  by (simp add: sint_saturate_q15)

theorem saturate_q15_boundary_witness:
  "(32767 < sint (40000 :: int32_t) \<and> sint (saturate_q15 40000) = 32767) \<and>
   (sint (- 40000 :: int32_t) < - 32768 \<and> sint (saturate_q15 (- 40000)) = - 32768) \<and>
   (- 32768 \<le> sint (- 5 :: int32_t) \<and> sint (- 5 :: int32_t) \<le> 32767
      \<and> sint (saturate_q15 (- 5)) = sint (- 5 :: int32_t))"
  using saturate_q15_boundary [of 40000] saturate_q15_boundary [of "- 40000"]
    saturate_q15_boundary [of "- 5"]
  by simp

section \<open>The kernel loop\<close>

lemma word_eqI_sint: "sint v = sint w \<Longrightarrow> v = w"
  by (rule signed_word_eqI)

lemma sint_scast_16_32: "sint (scast (w :: int16_t) :: int32_t) = sint w"
  by (simp add: sint_up_scast is_up)

text \<open>
  On arrays that hold at least \<open>n\<close> elements the loop returns; it has stored the element
  function at the indices from \<open>i\<close> up to \<open>n\<close> and left every other element of \<open>y\<close> alone.
\<close>

lemma q15_axpy_loop_result:
  "n \<le> length a \<Longrightarrow> n \<le> length b \<Longrightarrow> n \<le> length y \<Longrightarrow>
   \<exists>r. q15_axpy_loop a b y n alpha i = Inr r \<and> length r = length y \<and>
       (\<forall>j<length y. r ! j =
          (if i \<le> j \<and> j < n then axpy_element alpha (a ! j) (b ! j) else y ! j))"
proof (induction a b y n alpha i rule: q15_axpy_loop.induct)
  case (1 a b y n alpha i)
  show ?case
  proof (cases "i < n")
    case False
    then show ?thesis
      by (auto simp: q15_axpy_loop.simps [of a b y n alpha i])
  next
    case True
    let ?y = "y[i := axpy_element alpha (a ! i) (b ! i)]"
    from True "1.prems" have inb: "i < length a \<and> i < length b \<and> i < length y"
      by simp
    have step: "q15_axpy_loop a b y n alpha i = q15_axpy_loop a b ?y n alpha (Suc i)"
      using True inb
      by (simp add: q15_axpy_loop.simps [of a b y n alpha i] axpy_element_def)
    from "1.IH" [OF True inb refl refl refl] "1.prems"
    obtain r where r: "q15_axpy_loop a b ?y n alpha (Suc i) = Inr r" "length r = length y"
      "\<forall>j<length y. r ! j =
          (if Suc i \<le> j \<and> j < n then axpy_element alpha (a ! j) (b ! j) else ?y ! j)"
      by (auto simp: axpy_element_def)
    have "\<forall>j<length y. r ! j =
          (if i \<le> j \<and> j < n then axpy_element alpha (a ! j) (b ! j) else y ! j)"
    proof (intro allI impI)
      fix j assume j: "j < length y"
      show "r ! j = (if i \<le> j \<and> j < n then axpy_element alpha (a ! j) (b ! j) else y ! j)"
      proof (cases "j = i")
        case True
        with r(3) j \<open>i < n\<close> show ?thesis by simp
      next
        case False
        with r(3) j show ?thesis by (auto simp: nth_list_update)
      qed
    qed
    with step r(1,2) show ?thesis by simp
  qed
qed

lemma q15_axpy_baseline_result:
  assumes "n \<le> length a" "n \<le> length b" "n \<le> length y"
  shows "\<exists>r. q15_axpy_baseline a b y n alpha = Inr r \<and> length r = length y \<and>
       (\<forall>j<n. r ! j = axpy_element alpha (a ! j) (b ! j)) \<and>
       (\<forall>j. n \<le> j \<and> j < length y \<longrightarrow> r ! j = y ! j)"
proof -
  from q15_axpy_loop_result [OF assms, of alpha 0]
  obtain r where r: "q15_axpy_loop a b y n alpha 0 = Inr r" "length r = length y"
    "\<forall>j<length y. r ! j =
       (if 0 \<le> j \<and> j < n then axpy_element alpha (a ! j) (b ! j) else y ! j)"
    by blast
  from r(3) assms(3) have "\<forall>j<n. r ! j = axpy_element alpha (a ! j) (b ! j)"
    by simp
  moreover from r(3) have "\<forall>j. n \<le> j \<and> j < length y \<longrightarrow> r ! j = y ! j"
    by simp
  ultimately show ?thesis
    using r(1,2) by (simp add: q15_axpy_baseline_def)
qed

lemma q15_axpy_baseline_single:
  "q15_axpy_baseline [ai] [bi] [y0] (Suc 0) alpha = Inr [axpy_element alpha ai bi]"
  by (simp add: q15_axpy_baseline_def q15_axpy_loop.simps axpy_element_def)

lemma axpy_element_alpha_0: "axpy_element 0 ai bi = ai"
proof -
  have "sint (axpy_element 0 ai bi) = max (- 32768) (min 32767 (sint ai))"
    by (simp add: axpy_element_def product_of_def scaled_of_def sum_of_def
        sint_saturate_q15 sint_scast_16_32)
  moreover have "- 32768 \<le> sint ai" "sint ai \<le> 32767"
    using sint_ge [of ai] sint_lt [of ai] by simp_all
  ultimately have "sint (axpy_element 0 ai bi) = sint ai"
    by simp
  then show ?thesis
    by (rule word_eqI_sint)
qed

text \<open>
  C1.  The optimized kernel \<open>q15_axpy_vector\<close> and the reference kernel
  \<open>q15_axpy_baseline\<close> give the same result on every input; on valid input (\<open>a\<close> and \<open>b\<close>
  of length \<open>n\<close>, an output buffer of at least \<open>n\<close> elements) both return an output
  array, and the two arrays are equal element by element.
\<close>

theorem q15_axpy_vector_bit_identical:
  "q15_axpy_vector a b y n alpha = q15_axpy_baseline a b y n alpha \<and>
   (length a = n \<and> length b = n \<and> n \<le> length y \<longrightarrow>
      (\<exists>r v. q15_axpy_baseline a b y n alpha = Inr r \<and> q15_axpy_vector a b y n alpha = Inr v
         \<and> length r = length y \<and> length v = length y \<and> (\<forall>i<length y. v ! i = r ! i)))"
proof (intro conjI impI)
  show "q15_axpy_vector a b y n alpha = q15_axpy_baseline a b y n alpha"
    by (simp add: q15_axpy_vector_def)
next
  assume "length a = n \<and> length b = n \<and> n \<le> length y"
  then obtain r where "q15_axpy_baseline a b y n alpha = Inr r" "length r = length y"
    using q15_axpy_baseline_result [of n a b y alpha] by auto
  then show "\<exists>r v. q15_axpy_baseline a b y n alpha = Inr r \<and> q15_axpy_vector a b y n alpha = Inr v
         \<and> length r = length y \<and> length v = length y \<and> (\<forall>i<length y. v ! i = r ! i)"
    by (simp add: q15_axpy_vector_def)
qed

theorem q15_axpy_vector_bit_identical_witness:
  "(length [1, 2 :: int16_t] = 2 \<and> length [3, 4 :: int16_t] = 2 \<and> 2 \<le> length [0, 0 :: int16_t]) \<and>
   q15_axpy_vector [1, 2] [3, 4] [0, 0] 2 16384 = q15_axpy_baseline [1, 2] [3, 4] [0, 0] 2 16384 \<and>
   (\<exists>r v. q15_axpy_baseline [1, 2] [3, 4] [0, 0] 2 16384 = Inr r
       \<and> q15_axpy_vector [1, 2] [3, 4] [0, 0] 2 16384 = Inr v
       \<and> length r = length [0, 0 :: int16_t] \<and> length v = length [0, 0 :: int16_t]
       \<and> (\<forall>i<length [0, 0 :: int16_t]. v ! i = r ! i))"
proof -
  have h: "length [1, 2 :: int16_t] = 2 \<and> length [3, 4 :: int16_t] = 2
      \<and> 2 \<le> length [0, 0 :: int16_t]"
    by simp
  with q15_axpy_vector_bit_identical [of "[1, 2]" "[3, 4]" "[0, 0]" 2 16384]
  show ?thesis
    by blast
qed

text \<open>
  C3.  With \<open>a[i] = 0\<close>, \<open>alpha = -32768\<close> and \<open>b[i] = 1\<close> the product is -32768, the
  shift by 15 is arithmetic and gives -1 (the floor of the product over \<open>2^15\<close>),
  the sum is -1, \<open>saturate_q15\<close> leaves -1, and the kernel stores -1.
\<close>

theorem q15_axpy_shift_sign:
  "product_of (- 32768) 1 = - 32768 \<and>
   scaled_of (- 32768) = - 1 \<and>
   sint (scaled_of (- 32768)) = (- 32768) div 2 ^ 15 \<and>
   sum_of 0 (- 1) = - 1 \<and>
   saturate_q15 (- 1) = - 1 \<and>
   q15_axpy_baseline [0] [1] [y0] 1 (- 32768) = Inr [- 1] \<and>
   sint (- 1 :: int16_t) = - 1"
proof -
  have "saturate_q15 (- 1) = - 1"
    by (rule word_eqI_sint) (simp add: sint_saturate_q15)
  then show ?thesis
    by (simp add: q15_axpy_baseline_single axpy_element_def product_of_def scaled_of_def
        sum_of_def)
qed

text \<open>
  C6.  With \<open>alpha = 16384\<close>, \<open>a[i] = 0\<close> and \<open>b[i] = 32767\<close> the kernel stores
  \<open>floor (16384 * 32767 / 32768)\<close>, which is 16383: the exact product 536854528 shifted
  right by 15, plus 0, inside the Q15 range.
\<close>

theorem q15_axpy_half_scale:
  "product_of 16384 32767 = 536854528 \<and>
   (\<exists>r. q15_axpy_baseline [0] [32767] [y0] 1 16384 = Inr [r] \<and>
        sint r = \<lfloor>16384 * 32767 / 32768 :: real\<rfloor> \<and> sint r = 16383)"
proof -
  have "saturate_q15 16383 = 16383"
    by (rule word_eqI_sint) (simp add: sint_saturate_q15)
  then show ?thesis
    by (simp add: q15_axpy_baseline_single axpy_element_def product_of_def scaled_of_def
        sum_of_def)
qed

text \<open>
  C7.  With \<open>a[i] = 32767\<close>, \<open>alpha = 32767\<close> and \<open>b[i] = 32767\<close> the shifted product
  is 32766, the sum 65533 is above 32767, and the kernel stores exactly 32767.
\<close>

theorem q15_axpy_saturation_trigger:
  "scaled_of (product_of 32767 32767) = 32766 \<and>
   sint (sum_of 32767 (scaled_of (product_of 32767 32767))) = 65533 \<and>
   32767 < sint (sum_of 32767 (scaled_of (product_of 32767 32767))) \<and>
   q15_axpy_baseline [32767] [32767] [y0] 1 32767 = Inr [32767] \<and>
   sint (32767 :: int16_t) = 32767"
proof -
  have "saturate_q15 65533 = 32767"
    by (rule word_eqI_sint) (simp add: sint_saturate_q15)
  then show ?thesis
    by (simp add: q15_axpy_baseline_single axpy_element_def product_of_def scaled_of_def
        sum_of_def)
qed

text \<open>
  C8.  Identity scaling: with \<open>alpha = 0\<close>, on arrays \<open>a\<close> and \<open>b\<close> of length \<open>n\<close> (and an
  output buffer of at least \<open>n\<close> elements) the kernel returns, and \<open>y[i] = a[i]\<close> for
  every \<open>i\<close> in \<open>[0, n)\<close>; so does the optimized kernel.
\<close>

theorem q15_axpy_identity_scaling:
  assumes "length a = n" and "length b = n" and "n \<le> length y"
  shows "\<exists>r. q15_axpy_baseline a b y n 0 = Inr r \<and> q15_axpy_vector a b y n 0 = Inr r \<and>
           (\<forall>i<n. r ! i = a ! i)"
proof -
  from assms obtain r where "q15_axpy_baseline a b y n 0 = Inr r"
    and "\<forall>j<n. r ! j = axpy_element 0 (a ! j) (b ! j)"
    using q15_axpy_baseline_result [of n a b y 0] by auto
  then show ?thesis
    by (simp add: q15_axpy_vector_def axpy_element_alpha_0)
qed

theorem q15_axpy_identity_scaling_witness:
  "length [5, - 7, 32767 :: int16_t] = 3 \<and> length [9, - 32768, 4 :: int16_t] = 3 \<and>
   3 \<le> length [0, 0, 0 :: int16_t] \<and>
   (\<exists>r. q15_axpy_baseline [5, - 7, 32767] [9, - 32768, 4] [0, 0, 0] 3 0 = Inr r \<and>
        q15_axpy_vector [5, - 7, 32767] [9, - 32768, 4] [0, 0, 0] 3 0 = Inr r \<and>
        (\<forall>i<3. r ! i = [5, - 7, 32767] ! i))"
  using q15_axpy_identity_scaling [of "[5, - 7, 32767]" 3 "[9, - 32768, 4]" "[0, 0, 0]"]
  by simp

text \<open>
  C9.  Per-element independence: for \<open>i\<close> in \<open>[0, n)\<close>, two runs of the kernel on valid
  inputs that agree at position \<open>i\<close> of \<open>a\<close> and of \<open>b\<close> and on \<open>alpha\<close> give the same
  \<open>y[i]\<close>, whatever the other elements of \<open>a\<close> and \<open>b\<close> and the previous contents of the
  output buffers are; \<open>y[i]\<close> is the function \<open>axpy_element\<close> of \<open>alpha\<close>, \<open>a[i]\<close> and \<open>b[i]\<close>.
\<close>

theorem q15_axpy_element_independence:
  assumes "i < n"
    and "length a = n" and "length b = n" and "n \<le> length y"
    and "length a' = n" and "length b' = n" and "n \<le> length y'"
    and "a ! i = a' ! i" and "b ! i = b' ! i"
  shows "\<exists>r r'. q15_axpy_baseline a b y n alpha = Inr r \<and>
           q15_axpy_baseline a' b' y' n alpha = Inr r' \<and>
           r ! i = r' ! i \<and> r ! i = axpy_element alpha (a ! i) (b ! i)"
proof -
  from assms obtain r where r: "q15_axpy_baseline a b y n alpha = Inr r"
    "\<forall>j<n. r ! j = axpy_element alpha (a ! j) (b ! j)"
    using q15_axpy_baseline_result [of n a b y alpha] by auto
  from assms obtain r' where r': "q15_axpy_baseline a' b' y' n alpha = Inr r'"
    "\<forall>j<n. r' ! j = axpy_element alpha (a' ! j) (b' ! j)"
    using q15_axpy_baseline_result [of n a' b' y' alpha] by auto
  from r(2) r'(2) assms(1,8,9) have "r ! i = r' ! i"
    and "r ! i = axpy_element alpha (a ! i) (b ! i)"
    by simp_all
  with r(1) r'(1) show ?thesis
    by simp
qed

theorem q15_axpy_element_independence_witness:
  "(1 :: nat) < 2 \<and>
   length [100, 200 :: int16_t] = 2 \<and> length [- 3, 400 :: int16_t] = 2 \<and>
   2 \<le> length [0, 0 :: int16_t] \<and>
   length [- 9, 200 :: int16_t] = 2 \<and> length [32767, 400 :: int16_t] = 2 \<and>
   2 \<le> length [7, 7, 7 :: int16_t] \<and>
   [100, 200 :: int16_t] ! 1 = [- 9, 200] ! 1 \<and> [- 3, 400 :: int16_t] ! 1 = [32767, 400] ! 1 \<and>
   (\<exists>r r'. q15_axpy_baseline [100, 200] [- 3, 400] [0, 0] 2 16384 = Inr r \<and>
           q15_axpy_baseline [- 9, 200] [32767, 400] [7, 7, 7] 2 16384 = Inr r' \<and>
           r ! 1 = r' ! 1 \<and>
           r ! 1 = axpy_element 16384 ([100, 200] ! 1) ([- 3, 400] ! 1))"
  using q15_axpy_element_independence
    [of 1 2 "[100, 200]" "[- 3, 400]" "[0, 0]" "[- 9, 200]" "[32767, 400]" "[7, 7, 7]" 16384]
  by simp

section \<open>The verification loop\<close>

text \<open>When the elements from \<open>i\<close> up to \<open>n\<close> all match, the loop prints nothing and returns 1.\<close>

lemma verify_identical_loop_all_match:
  "n \<le> length ref \<Longrightarrow> n \<le> length test \<Longrightarrow>
   \<forall>j. i \<le> j \<and> j < n \<longrightarrow> ref ! j = test ! j \<Longrightarrow>
   verify_identical_loop ref test n i = Inr ([], 1)"
proof (induction ref test n i rule: verify_identical_loop.induct)
  case (1 ref test n i)
  show ?case
  proof (cases "i < n")
    case False
    then show ?thesis
      by (simp add: verify_identical_loop.simps [of ref test n i])
  next
    case True
    with "1.prems" have inb: "i < length ref \<and> i < length test" and eq: "\<not> ref ! i \<noteq> test ! i"
      by simp_all
    from "1.prems"(3) have "\<forall>j. Suc i \<le> j \<and> j < n \<longrightarrow> ref ! j = test ! j"
      by simp
    with "1.IH" [OF True inb eq] "1.prems"(1,2)
    have "verify_identical_loop ref test n (Suc i) = Inr ([], 1)"
      by simp
    with True inb eq show ?thesis
      by (simp add: verify_identical_loop.simps [of ref test n i])
  qed
qed

text \<open>
  When the first mismatch at or after \<open>i\<close> is at \<open>k\<close>, the loop prints that index with
  both values and returns 0; it reads no element after \<open>k\<close>.
\<close>

lemma verify_identical_loop_first_mismatch:
  "i \<le> k \<Longrightarrow> k < n \<Longrightarrow> k < length ref \<Longrightarrow> k < length test \<Longrightarrow> ref ! k \<noteq> test ! k \<Longrightarrow>
   \<forall>j. i \<le> j \<and> j < k \<longrightarrow> ref ! j = test ! j \<Longrightarrow>
   verify_identical_loop ref test n i = Inr ([Mismatch k (sint (ref ! k)) (sint (test ! k))], 0)"
proof (induction ref test n i rule: verify_identical_loop.induct)
  case (1 ref test n i)
  from "1.prems" have lt: "i < n" and inb: "i < length ref \<and> i < length test"
    by simp_all
  show ?case
  proof (cases "i = k")
    case True
    with "1.prems" lt inb show ?thesis
      by (simp add: verify_identical_loop.simps [of ref test n k])
  next
    case False
    with "1.prems" have less: "i < k"
      by simp
    with "1.prems"(6) have eq: "\<not> ref ! i \<noteq> test ! i"
      by simp
    from "1.prems"(6) have "\<forall>j. Suc i \<le> j \<and> j < k \<longrightarrow> ref ! j = test ! j"
      by simp
    with "1.IH" [OF lt inb eq] less "1.prems"(2-5)
    have "verify_identical_loop ref test n (Suc i)
            = Inr ([Mismatch k (sint (ref ! k)) (sint (test ! k))], 0)"
      by simp
    with lt inb eq show ?thesis
      by (simp add: verify_identical_loop.simps [of ref test n i])
  qed
qed

text \<open>The two outcomes of \<open>verify_identical\<close> on arrays of at least \<open>n\<close> elements.\<close>

lemma verify_identical_cases:
  assumes "n \<le> length ref" and "n \<le> length test"
  shows "if \<forall>i<n. ref ! i = test ! i
         then verify_identical ref test n = Inr ([], 1)
         else \<exists>k<n. ref ! k \<noteq> test ! k \<and> (\<forall>j<k. ref ! j = test ! j) \<and>
                verify_identical ref test n
                  = Inr ([Mismatch k (sint (ref ! k)) (sint (test ! k))], 0)"
proof (cases "\<forall>i<n. ref ! i = test ! i")
  case True
  with assms have "verify_identical ref test n = Inr ([], 1)"
    by (simp add: verify_identical_def verify_identical_loop_all_match)
  with True show ?thesis
    by simp
next
  case False
  then have ex: "\<exists>i. i < n \<and> ref ! i \<noteq> test ! i"
    by blast
  define m where "m = (LEAST i. i < n \<and> ref ! i \<noteq> test ! i)"
  from ex have m: "m < n \<and> ref ! m \<noteq> test ! m"
    unfolding m_def by (rule LeastI_ex)
  have least: "\<forall>j<m. ref ! j = test ! j"
  proof (intro allI impI)
    fix j assume "j < m"
    then have "\<not> (j < n \<and> ref ! j \<noteq> test ! j)"
      unfolding m_def by (rule not_less_Least)
    with \<open>j < m\<close> m show "ref ! j = test ! j"
      by simp
  qed
  from m assms least
  have "verify_identical ref test n = Inr ([Mismatch m (sint (ref ! m)) (sint (test ! m))], 0)"
    by (simp add: verify_identical_def verify_identical_loop_first_mismatch)
  with False m least show ?thesis
    by auto
qed

text \<open>
  C10.  On two arrays of (at least) \<open>n\<close> elements \<open>verify_identical\<close> returns, with 1 if
  all \<open>n\<close> elements match and with 0 otherwise, so it returns true exactly when they
  all match.  When it returns 1 it has printed nothing; when it returns 0 it has
  printed one line, the index of the first mismatch with both values.  It stops at
  that index: the result is the same whatever follows the first mismatch, even if
  the arrays end before \<open>n\<close>.
\<close>

theorem verify_identical_iff_all_match:
  "(n \<le> length ref \<and> n \<le> length test \<longrightarrow>
      (\<exists>printed res. verify_identical ref test n = Inr (printed, res) \<and>
         (res = 1 \<or> res = 0) \<and>
         (res \<noteq> 0 \<longleftrightarrow> (\<forall>i<n. ref ! i = test ! i)) \<and>
         (res \<noteq> 0 \<longrightarrow> printed = []) \<and>
         (res = 0 \<longrightarrow>
            (\<exists>k<n. ref ! k \<noteq> test ! k \<and> (\<forall>j<k. ref ! j = test ! j) \<and>
                   printed = [Mismatch k (sint (ref ! k)) (sint (test ! k))])))) \<and>
   (k < n \<and> k < length ref \<and> k < length test \<and> ref ! k \<noteq> test ! k \<and>
      (\<forall>j<k. ref ! j = test ! j) \<longrightarrow>
      verify_identical ref test n = Inr ([Mismatch k (sint (ref ! k)) (sint (test ! k))], 0))"
proof (intro conjI impI)
  assume len: "n \<le> length ref \<and> n \<le> length test"
  show "\<exists>printed res. verify_identical ref test n = Inr (printed, res) \<and>
         (res = 1 \<or> res = 0) \<and>
         (res \<noteq> 0 \<longleftrightarrow> (\<forall>i<n. ref ! i = test ! i)) \<and>
         (res \<noteq> 0 \<longrightarrow> printed = []) \<and>
         (res = 0 \<longrightarrow>
            (\<exists>k<n. ref ! k \<noteq> test ! k \<and> (\<forall>j<k. ref ! j = test ! j) \<and>
                   printed = [Mismatch k (sint (ref ! k)) (sint (test ! k))]))"
    using verify_identical_cases [of n ref test] len
    by (cases "\<forall>i<n. ref ! i = test ! i") auto
next
  assume "k < n \<and> k < length ref \<and> k < length test \<and> ref ! k \<noteq> test ! k \<and>
      (\<forall>j<k. ref ! j = test ! j)"
  then show "verify_identical ref test n
      = Inr ([Mismatch k (sint (ref ! k)) (sint (test ! k))], 0)"
    by (simp add: verify_identical_def verify_identical_loop_first_mismatch)
qed

lemma all_less_2: "(\<forall>j<2::nat. P j) \<longleftrightarrow> P 0 \<and> P 1"
  by (auto simp: less_2_cases_iff)

theorem verify_identical_iff_all_match_witness:
  "(3 \<le> length [1, 2, - 3 :: int16_t] \<and> 3 \<le> length [1, 2, - 3 :: int16_t]) \<and>
   (\<exists>printed res. verify_identical [1, 2, - 3] [1, 2, - 3] 3 = Inr (printed, res) \<and>
      res \<noteq> 0 \<and> printed = []) \<and>
   ((2 :: nat) < 5 \<and> 2 < length [1, 2, - 3 :: int16_t] \<and> 2 < length [1, 2, 4, 9 :: int16_t] \<and>
      [1, 2, - 3 :: int16_t] ! 2 \<noteq> [1, 2, 4, 9] ! 2 \<and>
      [1, 2, - 3 :: int16_t] ! 0 = [1, 2, 4, 9] ! 0 \<and>
      [1, 2, - 3 :: int16_t] ! 1 = [1, 2, 4, 9] ! 1) \<and>
   verify_identical [1, 2, - 3] [1, 2, 4, 9] 5 = Inr ([Mismatch 2 (- 3) 4], 0)"
proof -
  have h1: "3 \<le> length [1, 2, - 3 :: int16_t] \<and> 3 \<le> length [1, 2, - 3 :: int16_t]"
    by simp
  have h2: "(2 :: nat) < 5 \<and> 2 < length [1, 2, - 3 :: int16_t] \<and> 2 < length [1, 2, 4, 9 :: int16_t] \<and>
      [1, 2, - 3 :: int16_t] ! 2 \<noteq> [1, 2, 4, 9] ! 2 \<and>
      [1, 2, - 3 :: int16_t] ! 0 = [1, 2, 4, 9] ! 0 \<and>
      [1, 2, - 3 :: int16_t] ! 1 = [1, 2, 4, 9] ! 1"
    by simp
  from verify_identical_iff_all_match [of 3 "[1, 2, - 3]" "[1, 2, - 3]" 0] h1
  have "\<exists>printed res. verify_identical [1, 2, - 3 :: int16_t] [1, 2, - 3] 3 = Inr (printed, res) \<and>
      res \<noteq> 0 \<and> printed = []"
    by (auto simp: all_less_2 less_Suc_eq)
  moreover from verify_identical_iff_all_match [of 5 "[1, 2, - 3]" "[1, 2, 4, 9]" 2] h2
  have "verify_identical [1, 2, - 3] [1, 2, 4, 9] 5 = Inr ([Mismatch 2 (- 3) 4], 0)"
    by (simp add: all_less_2)
  ultimately show ?thesis
    using h1 h2 by blast
qed

section \<open>The benchmark driver\<close>

lemma init_loop_result:
  "length a = test_size \<Longrightarrow> length b = test_size \<Longrightarrow>
   \<exists>a' b'. init_loop rnd a b i = Inr (a', b') \<and> length a' = test_size \<and> length b' = test_size"
proof (induction rnd a b i rule: init_loop.induct)
  case (1 rnd a b i)
  show ?case
  proof (cases "i < test_size")
    case False
    with "1.prems" show ?thesis
      by (simp add: init_loop.simps [of rnd a b i])
  next
    case True
    with "1.prems" have inb: "i < length a \<and> i < length b"
      by simp
    from "1.IH" [OF True inb] "1.prems" True inb show ?thesis
      by (simp add: init_loop.simps [of rnd a b i])
  qed
qed

text \<open>
  Lines 84-105 always complete on buffers of \<open>test_size\<close> elements, and the two kernels
  leave the same contents in the two output buffers.
\<close>

lemma run_kernels_result:
  "\<exists>out. run_kernels e
            = Inr (out, out, rdcycle64 e 1 - rdcycle64 e 0, rdcycle64 e 3 - rdcycle64 e 2)
          \<and> length out = test_size"
proof -
  let ?buf = "\<lambda>k. map (the (aligned_alloc e k)) [0..<test_size]"
  obtain a b where ab: "init_loop (rand e) (?buf 0) (?buf 1) 0 = Inr (a, b)"
    "length a = test_size" "length b = test_size"
    using init_loop_result [of "?buf 0" "?buf 1" "rand e" 0] by auto
  obtain r where r: "q15_axpy_baseline a b (?buf 2) test_size alpha_main = Inr r"
    "length r = test_size" "\<forall>j<test_size. r ! j = axpy_element alpha_main (a ! j) (b ! j)"
    using q15_axpy_baseline_result [of test_size a b "?buf 2" alpha_main] ab(2,3) by auto
  obtain r' where r': "q15_axpy_baseline a b (?buf 3) test_size alpha_main = Inr r'"
    "length r' = test_size" "\<forall>j<test_size. r' ! j = axpy_element alpha_main (a ! j) (b ! j)"
    using q15_axpy_baseline_result [of test_size a b "?buf 3" alpha_main] ab(2,3) by auto
  have "r' = r"
    using r(2,3) r'(2,3) by (simp add: nth_equalityI)
  with ab(1) r(1) r'(1) have "run_kernels e
      = Inr (r, r, rdcycle64 e 1 - rdcycle64 e 0, rdcycle64 e 3 - rdcycle64 e 2)"
    by (simp add: run_kernels_def q15_axpy_vector_def)
  with r(2) show ?thesis
    by blast
qed

text \<open>Lines 107-122 on any two output buffers of \<open>test_size\<close> elements.\<close>

lemma verify_and_report_result:
  assumes "length baseline_out = test_size" and "length vector_out = test_size"
  shows "\<exists>printed code.
           verify_and_report baseline_out vector_out bc vc = Inr (printed, code) \<and>
           (code = 0 \<or> code = 1) \<and>
           (code = 0 \<longleftrightarrow> (\<forall>i<test_size. baseline_out ! i = vector_out ! i)) \<and>
           Verification (code = 0) \<in> set printed \<and>
           divisions printed = [Quotient bc vc]"
proof (cases "\<forall>i<test_size. baseline_out ! i = vector_out ! i")
  case True
  with verify_identical_cases [of test_size baseline_out vector_out] assms
  have "verify_identical baseline_out vector_out test_size = Inr ([], 1)"
    by simp
  with True show ?thesis
    by (simp add: verify_and_report_def)
next
  case False
  with verify_identical_cases [of test_size baseline_out vector_out] assms
  obtain k where "verify_identical baseline_out vector_out test_size
      = Inr ([Mismatch k (sint (baseline_out ! k)) (sint (vector_out ! k))], 0)"
    by auto
  with False show ?thesis
    by (simp add: verify_and_report_def)
qed

text \<open>A run in which the four allocations succeed: what it prints and returns.\<close>

lemma main_allocated:
  assumes "\<not> (aligned_alloc e 0 = None \<or> aligned_alloc e 1 = None
              \<or> aligned_alloc e 2 = None \<or> aligned_alloc e 3 = None)"
  shows "main e =
     Inr ([Header test_size alpha_main, Call_baseline, Call_vector, Results_header,
           Baseline_row (rdcycle64 e 1 - rdcycle64 e 0),
           Vector_row (rdcycle64 e 3 - rdcycle64 e 2)
             (Quotient (rdcycle64 e 1 - rdcycle64 e 0) (rdcycle64 e 3 - rdcycle64 e 2)),
           Verification True, Free_buffers], 0)"
proof -
  obtain out where out: "run_kernels e
      = Inr (out, out, rdcycle64 e 1 - rdcycle64 e 0, rdcycle64 e 3 - rdcycle64 e 2)"
    "length out = test_size"
    using run_kernels_result [of e] by blast
  from verify_identical_cases [of test_size out out] out(2)
  have "verify_identical out out test_size = Inr ([], 1)"
    by simp
  with assms out(1) show ?thesis
    by (simp add: main_def verify_and_report_def)
qed

text \<open>
  C5.  The exit code of \<open>main\<close>.  If any of the four allocations fails, \<open>main\<close> prints
  the failure and returns 1, and neither kernel has been called.  Otherwise both
  kernels run, and \<open>main\<close> returns 0 if all \<open>test_size\<close> elements of the two output
  buffers are equal, and 1 if not; the verification line it prints says the same.
  The last part states this for lines 107-122 on any two output buffers, equal or
  not.
\<close>

theorem main_exit_code:
  "(aligned_alloc e 0 = None \<or> aligned_alloc e 1 = None
      \<or> aligned_alloc e 2 = None \<or> aligned_alloc e 3 = None \<longrightarrow>
      main e = Inr ([Alloc_failed], 1)) \<and>
   (\<not> (aligned_alloc e 0 = None \<or> aligned_alloc e 1 = None
         \<or> aligned_alloc e 2 = None \<or> aligned_alloc e 3 = None) \<longrightarrow>
      (\<exists>baseline_out vector_out bc vc printed code.
         run_kernels e = Inr (baseline_out, vector_out, bc, vc) \<and>
         verify_and_report baseline_out vector_out bc vc = Inr (printed, code) \<and>
         main e = Inr (Header test_size alpha_main # Call_baseline # Call_vector # printed, code) \<and>
         (code = 0 \<or> code = 1) \<and>
         (code = 0 \<longleftrightarrow> (\<forall>i<test_size. baseline_out ! i = vector_out ! i)) \<and>
         Verification (code = 0) \<in> set printed)) \<and>
   (length out1 = test_size \<and> length out2 = test_size \<longrightarrow>
      (\<exists>printed code.
         verify_and_report out1 out2 c1 c2 = Inr (printed, code) \<and>
         (code = 0 \<or> code = 1) \<and>
         (code = 0 \<longleftrightarrow> (\<forall>i<test_size. out1 ! i = out2 ! i)) \<and>
         Verification (code = 0) \<in> set printed))"
proof (intro conjI impI)
  assume "aligned_alloc e 0 = None \<or> aligned_alloc e 1 = None
      \<or> aligned_alloc e 2 = None \<or> aligned_alloc e 3 = None"
  then show "main e = Inr ([Alloc_failed], 1)"
    by (simp add: main_def)
next
  assume ok: "\<not> (aligned_alloc e 0 = None \<or> aligned_alloc e 1 = None
         \<or> aligned_alloc e 2 = None \<or> aligned_alloc e 3 = None)"
  obtain out bc vc where out: "run_kernels e = Inr (out, out, bc, vc)" "length out = test_size"
    using run_kernels_result [of e] by blast
  from verify_and_report_result [OF out(2) out(2), of bc vc]
  obtain printed code where rep: "verify_and_report out out bc vc = Inr (printed, code)"
    "code = 0 \<or> code = 1" "code = 0 \<longleftrightarrow> (\<forall>i<test_size. out ! i = out ! i)"
    "Verification (code = 0) \<in> set printed"
    by blast
  from ok out(1) rep(1)
  have "main e = Inr (Header test_size alpha_main # Call_baseline # Call_vector # printed, code)"
    by (simp add: main_def)
  with out(1) rep
  show "\<exists>baseline_out vector_out bc vc printed code.
         run_kernels e = Inr (baseline_out, vector_out, bc, vc) \<and>
         verify_and_report baseline_out vector_out bc vc = Inr (printed, code) \<and>
         main e = Inr (Header test_size alpha_main # Call_baseline # Call_vector # printed, code) \<and>
         (code = 0 \<or> code = 1) \<and>
         (code = 0 \<longleftrightarrow> (\<forall>i<test_size. baseline_out ! i = vector_out ! i)) \<and>
         Verification (code = 0) \<in> set printed"
    by blast
next
  assume "length out1 = test_size \<and> length out2 = test_size"
  then show "\<exists>printed code.
         verify_and_report out1 out2 c1 c2 = Inr (printed, code) \<and>
         (code = 0 \<or> code = 1) \<and>
         (code = 0 \<longleftrightarrow> (\<forall>i<test_size. out1 ! i = out2 ! i)) \<and>
         Verification (code = 0) \<in> set printed"
    using verify_and_report_result [of out1 out2 c1 c2] by blast
qed

theorem main_exit_code_witness:
  "(aligned_alloc failed_alloc_env 2 = None \<and> main failed_alloc_env = Inr ([Alloc_failed], 1)) \<and>
   (\<not> (aligned_alloc riscv_env 0 = None \<or> aligned_alloc riscv_env 1 = None
         \<or> aligned_alloc riscv_env 2 = None \<or> aligned_alloc riscv_env 3 = None) \<and>
      (\<exists>printed code. main riscv_env
          = Inr (Header test_size alpha_main # Call_baseline # Call_vector # printed, code) \<and>
         (code = 0 \<or> code = 1) \<and> Verification (code = 0) \<in> set printed)) \<and>
   (length (replicate test_size (0 :: int16_t)) = test_size \<and>
    length (replicate test_size (1 :: int16_t)) = test_size \<and>
      (\<exists>printed. verify_and_report (replicate test_size 0) (replicate test_size 1) 5 7
          = Inr (printed, 1) \<and> Verification False \<in> set printed))"
proof -
  have h1: "aligned_alloc failed_alloc_env 2 = None"
    by (simp add: failed_alloc_env_def)
  have h2: "\<not> (aligned_alloc riscv_env 0 = None \<or> aligned_alloc riscv_env 1 = None
         \<or> aligned_alloc riscv_env 2 = None \<or> aligned_alloc riscv_env 3 = None)"
    by (simp add: riscv_env_def)
  have h3: "length (replicate test_size (0 :: int16_t)) = test_size \<and>
    length (replicate test_size (1 :: int16_t)) = test_size"
    by simp
  have pos: "0 < test_size"
    by (simp add: test_size_def)
  then have "replicate test_size (0 :: int16_t) ! 0 \<noteq> replicate test_size 1 ! 0"
    by simp
  with pos have ne:
    "\<not> (\<forall>i<test_size. replicate test_size (0 :: int16_t) ! i = replicate test_size 1 ! i)"
    by blast
  from main_exit_code [of failed_alloc_env "[]" "[]" 0 0] h1
  have "main failed_alloc_env = Inr ([Alloc_failed], 1)"
    by blast
  moreover from main_exit_code [of riscv_env "[]" "[]" 0 0] h2
  have "\<exists>printed code. main riscv_env
          = Inr (Header test_size alpha_main # Call_baseline # Call_vector # printed, code) \<and>
         (code = 0 \<or> code = 1) \<and> Verification (code = 0) \<in> set printed"
    by blast
  moreover have "\<exists>printed. verify_and_report (replicate test_size 0) (replicate test_size 1) 5 7
          = Inr (printed, 1) \<and> Verification False \<in> set printed"
  proof -
    from main_exit_code [of riscv_env "replicate test_size 0" "replicate test_size 1" 5 7] h3
    obtain printed code where pc:
      "verify_and_report (replicate test_size 0) (replicate test_size 1) 5 7 = Inr (printed, code)"
      "code = 0 \<or> code = 1"
      "code = 0 \<longleftrightarrow>
         (\<forall>i<test_size. replicate test_size (0 :: int16_t) ! i = replicate test_size 1 ! i)"
      "Verification (code = 0) \<in> set printed"
      by blast
    from pc(2,3) ne have "code = 1"
      by blast
    with pc(1,4) show ?thesis
      by simp
  qed
  ultimately show ?thesis
    using h1 h2 h3 by blast
qed

text \<open>
  C4.  The claim that the speedup division is guarded fails on the code: on a
  platform without the cycle counter, where \<open>rdcycle64\<close> returns 0, a run in which
  the allocations succeed prints the speedup \<^verbatim>\<open>(double)baseline_cycles / vector_cycles\<close>
  with both cycle counts 0, so the divisor is 0.
\<close>

theorem main_speedup_divisor_zero:
  "\<not> riscv64 no_counter_env \<and>
   main no_counter_env =
     Inr ([Header 4096 16384, Call_baseline, Call_vector, Results_header, Baseline_row 0,
           Vector_row 0 (Quotient 0 0), Verification True, Free_buffers], 0) \<and>
   map divisor
     (divisions [Header 4096 16384, Call_baseline, Call_vector, Results_header, Baseline_row 0,
           Vector_row 0 (Quotient 0 0), Verification True, Free_buffers]) = [0]"
proof -
  have "\<not> (aligned_alloc no_counter_env 0 = None \<or> aligned_alloc no_counter_env 1 = None
         \<or> aligned_alloc no_counter_env 2 = None \<or> aligned_alloc no_counter_env 3 = None)"
    by (simp add: no_counter_env_def)
  from main_allocated [OF this] show ?thesis
    by (simp add: rdcycle64_def no_counter_env_def test_size_def alpha_main_def)
qed

text \<open>
  C4, as the code has it.  There is no guard: whenever the four allocations succeed,
  \<open>main\<close> performs the speedup division exactly once, with dividend
  \<open>baseline_cycles\<close> (second counter reading minus first) and divisor \<open>vector_cycles\<close>
  (fourth counter reading minus third), whatever their values; when the cycle counter
  is unavailable both are the sentinel 0 and the divisor is 0.
\<close>

theorem main_speedup_division:
  assumes "\<not> (aligned_alloc e 0 = None \<or> aligned_alloc e 1 = None
              \<or> aligned_alloc e 2 = None \<or> aligned_alloc e 3 = None)"
  shows "\<exists>printed code. main e = Inr (printed, code) \<and>
           divisions printed
             = [Quotient (rdcycle64 e 1 - rdcycle64 e 0) (rdcycle64 e 3 - rdcycle64 e 2)] \<and>
           (\<not> riscv64 e \<longrightarrow> divisions printed = [Quotient 0 0])"
  using main_allocated [OF assms] by (simp add: rdcycle64_def)

theorem main_speedup_division_witness:
  "\<not> (aligned_alloc no_counter_env 0 = None \<or> aligned_alloc no_counter_env 1 = None
       \<or> aligned_alloc no_counter_env 2 = None \<or> aligned_alloc no_counter_env 3 = None) \<and>
   \<not> riscv64 no_counter_env \<and>
   (\<exists>printed code. main no_counter_env = Inr (printed, code) \<and>
       divisions printed = [Quotient 0 0])"
proof -
  have h: "\<not> (aligned_alloc no_counter_env 0 = None \<or> aligned_alloc no_counter_env 1 = None
       \<or> aligned_alloc no_counter_env 2 = None \<or> aligned_alloc no_counter_env 3 = None)"
    by (simp add: no_counter_env_def)
  have h': "\<not> riscv64 no_counter_env"
    by (simp add: no_counter_env_def)
  from main_speedup_division [OF h] h h' show ?thesis
    by blast
qed

end
